theory Spec2Isabelle
  imports
    Main
    "HOL-Library.Char_ord"
    "HOL-Library.List_Lexorder"
    "HOL-Library.AList"
    "HOL-Library.Multiset"
begin

section \<open>Python string primitives used by the restoration scripts\<close>

text \<open>
  Strings are lists of characters. The scripts only ever use a handful of \<open>str\<close>
  methods; each is written out here with the behaviour Python gives it, including the
  corner cases the scripts can reach (a negative start index for \<open>find\<close>, a negative
  end index for a slice). Text is taken to be ASCII: \<open>strip\<close> and \<open>lower\<close> treat
  characters above 127 as ordinary, non-space, caseless characters.
\<close>

abbreviation nl :: char where "nl \<equiv> CHR 0x0A"
abbreviation tab :: char where "tab \<equiv> CHR 0x09"
abbreviation squote :: char where "squote \<equiv> CHR 0x27"
abbreviation bslash :: char where "bslash \<equiv> CHR 0x5C"

text \<open>\<open>s.startswith(p)\<close>\<close>

fun startswith :: "string \<Rightarrow> string \<Rightarrow> bool" where
  "startswith s [] = True"
| "startswith [] (p # ps) = False"
| "startswith (c # cs) (p # ps) = (c = p \<and> startswith cs ps)"

text \<open>\<open>s.endswith(p)\<close>\<close>

definition endswith :: "string \<Rightarrow> string \<Rightarrow> bool" where
  "endswith s p = startswith (rev s) (rev p)"

text \<open>\<open>sub in s\<close>\<close>

fun py_in :: "string \<Rightarrow> string \<Rightarrow> bool" where
  "py_in sub [] = (sub = [])"
| "py_in sub (c # cs) = (startswith (c # cs) sub \<or> py_in sub cs)"

text \<open>
  \<open>s.find(sub, start)\<close>. \<open>find_from sub t i\<close> searches the suffix \<open>t\<close> of the
  string that begins at absolute index \<open>i\<close>. A negative \<open>start\<close> counts from the
  end and is clipped at 0; a \<open>start\<close> beyond the end finds nothing.
\<close>

fun find_from :: "string \<Rightarrow> string \<Rightarrow> nat \<Rightarrow> int" where
  "find_from sub [] i = (if sub = [] then int i else - 1)"
| "find_from sub (c # cs) i =
     (if startswith (c # cs) sub then int i else find_from sub cs (Suc i))"

definition py_find :: "string \<Rightarrow> string \<Rightarrow> int \<Rightarrow> int" where
  "py_find s sub start =
     (let n = int (length s);
          st = (if start < 0 then max 0 (start + n) else start)
      in if n < st then - 1 else find_from sub (drop (nat st) s) (nat st))"

text \<open>\<open>s[a:b]\<close>: negative indices count from the end, both are clipped to the string.\<close>

definition slice_index :: "nat \<Rightarrow> int \<Rightarrow> nat" where
  "slice_index n i = (if i < 0 then nat (max 0 (i + int n)) else min n (nat i))"

definition py_slice :: "string \<Rightarrow> int \<Rightarrow> int \<Rightarrow> string" where
  "py_slice s a b =
     (let lo = slice_index (length s) a; hi = slice_index (length s) b
      in take (hi - lo) (drop lo s))"

text \<open>\<open>s.strip()\<close>: the ASCII characters for which \<open>str.isspace\<close> holds.\<close>

definition is_space :: "char \<Rightarrow> bool" where
  "is_space c = (c \<in> set [CHR 0x20, CHR 0x09, CHR 0x0A, CHR 0x0B, CHR 0x0C, CHR 0x0D,
                            CHR 0x1C, CHR 0x1D, CHR 0x1E, CHR 0x1F])"

definition py_lstrip :: "string \<Rightarrow> string" where
  "py_lstrip s = dropWhile is_space s"

definition py_rstrip :: "string \<Rightarrow> string" where
  "py_rstrip s = rev (dropWhile is_space (rev s))"

definition py_strip :: "string \<Rightarrow> string" where
  "py_strip s = py_rstrip (py_lstrip s)"

text \<open>\<open>s.rstrip(',')\<close>\<close>

definition rstrip_comma :: "string \<Rightarrow> string" where
  "rstrip_comma s = rev (dropWhile (\<lambda>c. c = CHR '','') (rev s))"

text \<open>\<open>s.split(sep)\<close> for a one-character separator: never an empty list.\<close>

fun py_split :: "char \<Rightarrow> string \<Rightarrow> string list" where
  "py_split sep [] = [[]]"
| "py_split sep (c # cs) =
     (if c = sep then [] # py_split sep cs
      else (case py_split sep cs of
              [] \<Rightarrow> [[c]]
            | x # xs \<Rightarrow> (c # x) # xs))"

text \<open>\<open>sep.join(xs)\<close>\<close>

fun py_join :: "string \<Rightarrow> string list \<Rightarrow> string" where
  "py_join sep [] = []"
| "py_join sep [x] = x"
| "py_join sep (x # y # ys) = x @ sep @ py_join sep (y # ys)"

text \<open>\<open>s.replace("'", "''")\<close>\<close>

definition replace_squote :: "string \<Rightarrow> string" where
  "replace_squote s = concat (map (\<lambda>c. if c = squote then [squote, squote] else [c]) s)"

text \<open>\<open>s.lower()\<close> and \<open>s.upper()\<close> on ASCII letters.\<close>

definition lower_char :: "char \<Rightarrow> char" where
  "lower_char c =
     (case map_of (zip ''ABCDEFGHIJKLMNOPQRSTUVWXYZ'' ''abcdefghijklmnopqrstuvwxyz'') c of
        None \<Rightarrow> c
      | Some d \<Rightarrow> d)"

definition upper_char :: "char \<Rightarrow> char" where
  "upper_char c =
     (case map_of (zip ''abcdefghijklmnopqrstuvwxyz'' ''ABCDEFGHIJKLMNOPQRSTUVWXYZ'') c of
        None \<Rightarrow> c
      | Some d \<Rightarrow> d)"

definition py_lower :: "string \<Rightarrow> string" where
  "py_lower s = map lower_char s"

definition py_upper :: "string \<Rightarrow> string" where
  "py_upper s = map upper_char s"

section \<open>Standard Resolver (restore\_requirements.py, find\_target\_standards)\<close>

text \<open>
  The dict \<open>standard_map\<close> is the list of its items in iteration order. The five local
  variables of the function are the fields of \<open>targets\<close>, \<open>None\<close> until a branch of
  the \<open>if/elif\<close> chain assigns them. The second parameter of the source function is
  only printed and is left out.
\<close>

record targets =
  iso27001_id :: "string option"
  iso27002_id :: "string option"
  cis_ig1_id :: "string option"
  cis_ig2_id :: "string option"
  cis_ig3_id :: "string option"

definition no_targets :: targets where
  "no_targets = \<lparr>iso27001_id = None, iso27002_id = None, cis_ig1_id = None,
                  cis_ig2_id = None, cis_ig3_id = None\<rparr>"

definition resolve_step :: "targets \<Rightarrow> string \<times> string \<Rightarrow> targets" where
  "resolve_step t item =
     (let std_id = fst item; name_lower = py_lower (snd item) in
      if py_in ''iso'' name_lower \<and> py_in ''27001'' name_lower
        then t\<lparr>iso27001_id := Some std_id\<rparr>
      else if py_in ''iso'' name_lower \<and> py_in ''27002'' name_lower
        then t\<lparr>iso27002_id := Some std_id\<rparr>
      else if py_in ''cis'' name_lower \<and> py_in ''ig1'' name_lower
        then t\<lparr>cis_ig1_id := Some std_id\<rparr>
      else if py_in ''cis'' name_lower \<and> py_in ''ig2'' name_lower
        then t\<lparr>cis_ig2_id := Some std_id\<rparr>
      else if py_in ''cis'' name_lower \<and> py_in ''ig3'' name_lower
        then t\<lparr>cis_ig3_id := Some std_id\<rparr>
      else t)"

definition find_target_standards :: "(string \<times> string) list \<Rightarrow> targets" where
  "find_target_standards standard_map = foldl resolve_step no_targets standard_map"

text \<open>
  The branch of the chain a standard name takes, and reading a target's variable: used
  to state what the loop leaves in each variable.
\<close>

datatype target = ISO27001 | ISO27002 | CIS_IG1 | CIS_IG2 | CIS_IG3

fun tokens_match :: "target \<Rightarrow> string \<Rightarrow> bool" where
  "tokens_match ISO27001 name = (py_in ''iso'' (py_lower name) \<and> py_in ''27001'' (py_lower name))"
| "tokens_match ISO27002 name = (py_in ''iso'' (py_lower name) \<and> py_in ''27002'' (py_lower name))"
| "tokens_match CIS_IG1 name = (py_in ''cis'' (py_lower name) \<and> py_in ''ig1'' (py_lower name))"
| "tokens_match CIS_IG2 name = (py_in ''cis'' (py_lower name) \<and> py_in ''ig2'' (py_lower name))"
| "tokens_match CIS_IG3 name = (py_in ''cis'' (py_lower name) \<and> py_in ''ig3'' (py_lower name))"

definition branch_taken :: "string \<Rightarrow> target option" where
  "branch_taken name = List.find (\<lambda>k. tokens_match k name) [ISO27001, ISO27002, CIS_IG1, CIS_IG2, CIS_IG3]"

fun target_id :: "target \<Rightarrow> targets \<Rightarrow> string option" where
  "target_id ISO27001 t = iso27001_id t"
| "target_id ISO27002 t = iso27002_id t"
| "target_id CIS_IG1 t = cis_ig1_id t"
| "target_id CIS_IG2 t = cis_ig2_id t"
| "target_id CIS_IG3 t = cis_ig3_id t"

text \<open>The identifier of the last standard, in iteration order, that takes branch \<open>k\<close>.\<close>

definition last_in_branch :: "target \<Rightarrow> (string \<times> string) list \<Rightarrow> string option" where
  "last_in_branch k standard_map =
     (let hits = filter (\<lambda>item. branch_taken (snd item) = Some k) standard_map
      in if hits = [] then None else Some (fst (last hits)))"

section \<open>Backup Parser\<close>

text \<open>
  All three scripts locate a table's data with the same three statements:
  \<^verbatim>\<open>data_start = content.find('FROM stdin;', start) + len('FROM stdin;') + 1\<close>,
  \<^verbatim>\<open>data_end = content.find('\\.', data_start)\<close> and
  \<^verbatim>\<open>section = content[data_start:data_end].strip()\<close>,
  where \<open>start\<close> is what \<open>content.find('COPY public.<table>')\<close> returned.
  \<open>copy_section\<close> is those three statements; \<open>start\<close> may be \<open>-1\<close>.
\<close>

definition copy_section :: "string \<Rightarrow> int \<Rightarrow> string" where
  "copy_section content start =
     (let data_start = py_find content ''FROM stdin;'' start + int (length ''FROM stdin;'') + 1;
          data_end = py_find content [bslash, CHR ''.''] data_start
      in py_strip (py_slice content data_start data_end))"

text \<open>\<^verbatim>\<open>[line for line in section.split('\n') if line.strip()]\<close>\<close>

definition nonblank_lines :: "string \<Rightarrow> string list" where
  "nonblank_lines sect = filter (\<lambda>line. py_strip line \<noteq> []) (py_split nl sect)"

subsection \<open>execute\_restoration.py: extract\_requirements\_from\_backup\<close>

text \<open>
  The dict \<open>requirements\<close> is an association list in insertion order; assigning to an
  existing key replaces the value where the key already stands (\<open>AList.update\<close>).
\<close>

record req_data =
  standard_id :: string
  control_id :: string
  title :: string
  description :: string

definition add_requirement :: "string \<Rightarrow> (string \<times> req_data) list \<Rightarrow> (string \<times> req_data) list" where
  "add_requirement line requirements =
     (let parts = py_split tab line in
      if 5 \<le> length parts
      then AList.update (parts ! 0)
             \<lparr>standard_id = parts ! 1, control_id = parts ! 2,
              title = parts ! 3, description = parts ! 4\<rparr> requirements
      else requirements)"

definition extract_requirements_from_backup :: "string \<Rightarrow> (string \<times> req_data) list" where
  "extract_requirements_from_backup content =
     (let req_start = py_find content ''COPY public.requirements_library'' 0;
          req_section = copy_section content req_start;
          lines = nonblank_lines req_section
      in fold add_requirement lines [])"

subsection \<open>restore\_requirements.py: extract\_backup\_data\<close>

text \<open>
  The function prints an error and returns \<open>(None, None)\<close> when a marker is missing;
  that is the \<open>Inl\<close> result here.
\<close>

datatype backup_error = StandardsSectionMissing | RequirementsSectionMissing

record req_entry =
  entry_id :: string
  entry_control_id :: string
  entry_title :: string
  entry_description :: string
  full_line :: string

definition add_standard :: "string \<Rightarrow> (string \<times> string) list \<Rightarrow> (string \<times> string) list" where
  "add_standard line standard_map =
     (if py_strip line \<noteq> []
      then (let parts = py_split tab line in
            if 3 \<le> length parts
            then AList.update (parts ! 0) (py_strip (parts ! 1 @ '' '' @ parts ! 2)) standard_map
            else standard_map)
      else standard_map)"

definition add_entry ::
  "string \<Rightarrow> (string \<times> req_entry list) list \<Rightarrow> (string \<times> req_entry list) list" where
  "add_entry line requirements_by_standard =
     (let parts = py_split tab line in
      if 5 \<le> length parts
      then (let sid = parts ! 1;
                old = (case map_of requirements_by_standard sid of None \<Rightarrow> [] | Some l \<Rightarrow> l)
            in AList.update sid
                 (old @ [\<lparr>entry_id = parts ! 0, entry_control_id = parts ! 2,
                          entry_title = parts ! 3, entry_description = parts ! 4,
                          full_line = line\<rparr>])
                 requirements_by_standard)
      else requirements_by_standard)"

definition extract_backup_data ::
  "string \<Rightarrow> backup_error + ((string \<times> string) list \<times> (string \<times> req_entry list) list)" where
  "extract_backup_data content =
     (let standards_start = py_find content ''COPY public.standards_library'' 0 in
      if standards_start = - 1 then Inl StandardsSectionMissing
      else
        (let standards_section = copy_section content standards_start;
             standard_map = fold add_standard (py_split nl standards_section) [];
             req_start = py_find content ''COPY public.requirements_library'' 0
         in if req_start = - 1 then Inl RequirementsSectionMissing
            else
              (let req_section = copy_section content req_start;
                   lines = nonblank_lines req_section
               in Inr (standard_map, fold add_entry lines []))))"

section \<open>SQL Generator, restoration path (execute\_restoration.py)\<close>

text \<open>\<open>str(n)\<close> for a length.\<close>

definition digit_char :: "nat \<Rightarrow> char" where
  "digit_char d = ''0123456789'' ! d"

fun str_nat :: "nat \<Rightarrow> string" where
  "str_nat n = (if n < 10 then [digit_char n] else str_nat (n div 10) @ [digit_char (n mod 10)])"

declare str_nat.simps [simp del]

definition target_standards :: "(string \<times> string) list" where
  "target_standards =
     [(''iso27001'', ''55742f4e-769b-4efe-912c-1371de5e1cd6''),
      (''iso27002'', ''8508cfb0-3457-4226-b39a-851be52ef7ea''),
      (''cis_ig1'', ''afe9728d-2084-4b6b-8653-b04e1e92cdff''),
      (''cis_ig2'', ''05501cbc-c463-4668-ae84-9acb1a4d5332''),
      (''cis_ig3'', ''b1d9e82f-b0c3-40e2-89d7-4c51e216214e'')]"

text \<open>The seven lines appended for one requirement (source lines 85 to 94).\<close>

definition update_lines :: "string \<Rightarrow> req_data \<Rightarrow> string list" where
  "update_lines req_id rd =
     (let t = replace_squote (title rd);
          d = replace_squote (description rd)
      in [''-- Update '' @ control_id rd @ '': '' @ take 60 t @ ''...'',
          ''UPDATE requirements_library SET'',
          ''  title = '' @ [squote] @ t @ [squote] @ '','',
          ''  description = '' @ [squote] @ d @ [squote] @ '','',
          ''  updated_at = NOW()'',
          ''WHERE id = '' @ [squote] @ req_id @ [squote] @ '';'',
          []])"

text \<open>One iteration of the loop over \<open>target_standards.items()\<close>.\<close>

definition standard_block :: "(string \<times> req_data) list \<Rightarrow> string \<times> string \<Rightarrow> string list" where
  "standard_block target_requirements std =
     (let std_name = fst std; std_id = snd std;
          std_requirements = filter (\<lambda>kv. standard_id (snd kv) = std_id) target_requirements
      in if std_requirements \<noteq> []
         then [''-- '' @ py_upper std_name @ '' Requirements ('' @
                 str_nat (length std_requirements) @ '' total)'', []]
              @ concat (map (\<lambda>kv. update_lines (fst kv) (snd kv)) std_requirements)
         else [])"

definition verification_head :: "string list" where
  "verification_head =
     [''-- Verification Queries'',
      ''SELECT '',
      ''  sl.name as standard_name,'',
      ''  COUNT(*) as requirement_count'',
      ''FROM requirements_library rl'',
      ''JOIN standards_library sl ON rl.standard_id = sl.id'',
      ''WHERE sl.id IN ('']"

text \<open>\<^verbatim>\<open>sql_statements[-1] = sql_statements[-1].rstrip(',')\<close> (the list is never empty there).\<close>

definition rstrip_last :: "string list \<Rightarrow> string list" where
  "rstrip_last xs = butlast xs @ [rstrip_comma (last xs)]"

text \<open>The list \<open>sql_statements\<close> as it stands when the function returns.\<close>

definition restoration_statements :: "(string \<times> req_data) list \<Rightarrow> string list" where
  "restoration_statements backup_requirements =
     (let header = [''-- Requirements Restoration SQL'',
                    ''-- Updates ONLY titles and descriptions from backup'',
                    ''-- Preserves all other columns and recent changes'',
                    []];
          target_requirements =
            filter (\<lambda>kv. standard_id (snd kv) \<in> set (map snd target_standards)) backup_requirements;
          blocks = concat (map (standard_block target_requirements) target_standards);
          id_lines = map (\<lambda>std. ''  '' @ [squote] @ snd std @ [squote] @ '','') target_standards
      in rstrip_last (header @ blocks @ verification_head @ id_lines)
         @ ['')'', ''GROUP BY sl.name, sl.id'', ''ORDER BY sl.name;''])"

text \<open>
  \<^verbatim>\<open>return '\\n'.join(sql_statements)\<close>: the separator is the two characters
  backslash and \<open>n\<close>.
\<close>

definition generate_restoration_sql :: "string \<Rightarrow> string" where
  "generate_restoration_sql content =
     py_join [bslash, CHR ''n''] (restoration_statements (extract_requirements_from_backup content))"

section \<open>SQL Generator, full-row INSERT path (create\_insert\_statements.py)\<close>

text \<open>\<^verbatim>\<open>parts[i] if parts[i] != '\\N' else 'NULL'\<close>\<close>

definition null_or :: "string \<Rightarrow> string" where
  "null_or v = (if v \<noteq> [bslash, CHR ''N''] then v else ''NULL'')"

text \<open>\<^verbatim>\<open>if x != 'NULL': x = f"'{x}'"\<close>\<close>

definition quote_unless_null :: "string \<Rightarrow> string" where
  "quote_unless_null v = (if v \<noteq> ''NULL'' then [squote] @ v @ [squote] else v)"

text \<open>
  The values interpolated into the statement, as they stand after the clean-up block
  (source lines 30 to 64), and the f-string itself (source lines 66 to 75). The
  template's line breaks are real newlines.
\<close>

record insert_values =
  v_req_id :: string
  v_standard_id :: string
  v_control_id :: string
  v_title :: string
  v_description :: string
  v_category :: string
  v_priority :: string
  v_parent_requirement_id :: string
  v_order_index :: string
  v_created_at :: string
  v_updated_at :: string
  v_is_active :: string
  v_tags :: string
  v_official_description :: string
  v_implementation_guidance :: string
  v_audit_ready_guidance :: string
  v_section :: string

definition insert_values_of :: "string list \<Rightarrow> insert_values" where
  "insert_values_of parts =
     \<lparr>v_req_id = parts ! 0,
      v_standard_id = parts ! 1,
      v_control_id = parts ! 2,
      v_title = replace_squote (parts ! 3),
      v_description = replace_squote (parts ! 4),
      v_category = replace_squote (parts ! 5),
      v_priority = parts ! 6,
      v_parent_requirement_id = quote_unless_null (null_or (parts ! 7)),
      v_order_index = parts ! 8,
      v_created_at = parts ! 9,
      v_updated_at = parts ! 10,
      v_is_active = parts ! 11,
      v_tags = quote_unless_null (null_or (parts ! 12)),
      v_official_description = null_or (parts ! 13),
      v_implementation_guidance = null_or (parts ! 14),
      v_audit_ready_guidance =
        (let a = null_or (parts ! 15) in
         if a \<noteq> ''NULL'' then [squote] @ replace_squote a @ [squote] else a),
      v_section = quote_unless_null (null_or (parts ! 16))\<rparr>"

definition insert_template :: "insert_values \<Rightarrow> string" where
  "insert_template v =
     ''INSERT INTO requirements_library (\<newline>'' @
     ''    id, standard_id, control_id, title, description, category, priority, \<newline>'' @
     ''    parent_requirement_id, order_index, created_at, updated_at, is_active, \<newline>'' @
     ''    tags, official_description, implementation_guidance, audit_ready_guidance, section\<newline>'' @
     '') VALUES (\<newline>'' @
     ''    '' @ [squote] @ v_req_id v @ [squote] @ '', '' @ [squote] @ v_standard_id v @ [squote] @
       '', '' @ [squote] @ v_control_id v @ [squote] @ '', '' @ [squote] @ v_title v @ [squote] @
       '', '' @ [squote] @ v_description v @ [squote] @ '', \<newline>'' @
     ''    '' @ [squote] @ v_category v @ [squote] @ '', '' @ [squote] @ v_priority v @ [squote] @
       '', '' @ v_parent_requirement_id v @ '', '' @ v_order_index v @ '', \<newline>'' @
     ''    '' @ [squote] @ v_created_at v @ [squote] @ '', '' @ [squote] @ v_updated_at v @ [squote] @
       '', '' @ v_is_active v @ '', '' @ v_tags v @ '', '' @ v_official_description v @ '', \<newline>'' @
     ''    '' @ v_implementation_guidance v @ '', '' @ v_audit_ready_guidance v @ '', '' @
       v_section v @ ''\<newline>'' @
     '');''"

definition insert_sql_of :: "string list \<Rightarrow> string" where
  "insert_sql_of parts = insert_template (insert_values_of parts)"

definition insert_iso27001_id :: string where
  "insert_iso27001_id = ''55742f4e-769b-4efe-912c-1371de5e1cd6''"

definition insert_iso27002_id :: string where
  "insert_iso27002_id = ''8508cfb0-3457-4226-b39a-851be52ef7ea''"

text \<open>One iteration of the loop over the lines; the state is the two result lists.\<close>

definition add_insert ::
  "string \<Rightarrow> (string \<times> string) list \<times> (string \<times> string) list
     \<Rightarrow> (string \<times> string) list \<times> (string \<times> string) list" where
  "add_insert line acc =
     (let parts = py_split tab line in
      if 18 \<le> length parts
      then (if parts ! 1 = insert_iso27001_id
              then (fst acc @ [(parts ! 2, insert_sql_of parts)], snd acc)
            else if parts ! 1 = insert_iso27002_id
              then (fst acc, snd acc @ [(parts ! 2, insert_sql_of parts)])
            else acc)
      else acc)"

definition extract_requirements_for_insert ::
  "string \<Rightarrow> (string \<times> string) list \<times> (string \<times> string) list" where
  "extract_requirements_for_insert content =
     (let req_start = py_find content ''COPY public.requirements_library'' 0;
          req_section = copy_section content req_start;
          lines = nonblank_lines req_section
      in fold add_insert lines ([], []))"




definition iso27001_written :: "string \<Rightarrow> (string \<times> string) list" where
  "iso27001_written content = sort_key fst (fst (extract_requirements_for_insert content))"

definition iso27002_written :: "string \<Rightarrow> (string \<times> string) list" where
  "iso27002_written content = take 20 (sort_key fst (snd (extract_requirements_for_insert content)))"



section \<open>Batcher (execute\_sql\_chunks.py)\<close>

text \<open>
  \<^verbatim>\<open>re.findall(r'-- Update.*?WHERE id = \'[^\']+\';', sql_content, re.DOTALL)\<close>.
  \<open>where_tail_len s\<close> is the length of the match of \<^verbatim>\<open>WHERE id = '[^']+';\<close> at the
  start of \<open>s\<close>: the run \<^verbatim>\<open>[^']+\<close> cannot cross a quote, so only its longest extent
  can be followed by the closing quote. \<open>lazy_update_len s\<close> is the length of the
  shortest match of \<^verbatim>\<open>.*?WHERE id = '[^']+';\<close> at the start of \<open>s\<close> (with DOTALL the
  dot takes any character). \<open>findall_updates\<close> scans left to right and resumes after
  each match, as \<open>findall\<close> does.
\<close>

definition where_tail_len :: "string \<Rightarrow> nat option" where
  "where_tail_len s =
     (if startswith s (''WHERE id = '' @ [squote])
      then (let run = takeWhile (\<lambda>c. c \<noteq> squote) (drop 12 s) in
            if run \<noteq> [] \<and> startswith (drop (12 + length run) s) ([squote] @ '';'')
            then Some (12 + length run + 2) else None)
      else None)"

fun lazy_update_len :: "string \<Rightarrow> nat option" where
  "lazy_update_len [] = None"
| "lazy_update_len (c # cs) =
     (case where_tail_len (c # cs) of
        Some n \<Rightarrow> Some n
      | None \<Rightarrow> map_option Suc (lazy_update_len cs))"

function findall_updates :: "string \<Rightarrow> string list" where
  "findall_updates [] = []"
| "findall_updates (c # cs) =
     (if startswith (c # cs) ''-- Update''
      then (case lazy_update_len (drop 8 cs) of
              Some n \<Rightarrow> take (9 + n) (c # cs) # findall_updates (drop (8 + n) cs)
            | None \<Rightarrow> findall_updates cs)
      else findall_updates cs)"
  by pat_completeness auto
termination
  by (relation "measure length") auto

text \<open>
  \<^verbatim>\<open>for i in range(0, len(updates), chunk_size): chunk = updates[i:i+chunk_size]\<close>
  for a positive step: the indices are \<open>0, c, 2c, ...\<close> below the length.
\<close>

definition chunk_groups :: "'a list \<Rightarrow> nat \<Rightarrow> 'a list list" where
  "chunk_groups updates c =
     map (\<lambda>k. take c (drop (k * c) updates)) [0 ..< (length updates + c - 1) div c]"

datatype py_error = ValueError

text \<open>\<open>range\<close> raises on a zero step and is empty for a negative one.\<close>

definition split_sql_into_chunks :: "string \<Rightarrow> int \<Rightarrow> py_error + string list" where
  "split_sql_into_chunks sql_content chunk_size =
     (let updates = findall_updates sql_content in
      if chunk_size = 0 then Inl ValueError
      else if chunk_size < 0 then Inr []
      else Inr (map (py_join [nl, nl]) (chunk_groups updates (nat chunk_size))))"

text \<open>\<^verbatim>\<open>f'sql_chunk_{i+1:02d}.sql'\<close>: the number zero-padded to a width of at least two.\<close>

definition fmt_02d :: "nat \<Rightarrow> string" where
  "fmt_02d n = (let s = str_nat n in replicate (2 - length s) (CHR ''0'') @ s)"

definition chunk_file_name :: "nat \<Rightarrow> string" where
  "chunk_file_name i = ''sql_chunk_'' @ fmt_02d (i + 1) @ ''.sql''"

text \<open>The files \<open>main\<close> writes, as (name, content) in the order written.\<close>

definition write_chunks :: "string list \<Rightarrow> (string \<times> string) list" where
  "write_chunks chunks = map (\<lambda>ic. (chunk_file_name (fst ic), snd ic)) (enumerate 0 chunks)"

definition batcher_main :: "string \<Rightarrow> (string \<times> string) list" where
  "batcher_main sql_content =
     (case split_sql_into_chunks sql_content 8 of
        Inl e \<Rightarrow> []
      | Inr chunks \<Rightarrow> write_chunks chunks)"

section \<open>Aggregator (bulk\_restore\_all.py)\<close>

text \<open>
  The directory is a list of (name, content) with distinct names.
  \<^verbatim>\<open>sorted(glob.glob("sql_chunk_*.sql"))\<close> keeps the names the pattern matches, in
  string order.
\<close>

definition glob_match :: "string \<Rightarrow> bool" where
  "glob_match name =
     (startswith name ''sql_chunk_'' \<and> endswith name ''.sql'' \<and>
      length ''sql_chunk_'' + length ''.sql'' \<le> length name)"

record agg_state =
  all_sql :: "string list"
  in_update :: bool
  current_update :: "string list"

definition agg_line :: "string \<Rightarrow> agg_state \<Rightarrow> agg_state" where
  "agg_line line st =
     (if startswith (py_strip line) ''UPDATE requirements_library SET''
      then st\<lparr>in_update := True, current_update := [line]\<rparr>
      else if in_update st
      then (if endswith (py_strip line) '';''
            then st\<lparr>all_sql := all_sql st @ (current_update st @ [line]) @ [[]],
                    in_update := False, current_update := []\<rparr>
            else st\<lparr>current_update := current_update st @ [line]\<rparr>)
      else st)"

definition agg_file :: "string \<Rightarrow> string list \<Rightarrow> string list" where
  "agg_file content sql =
     all_sql (fold agg_line (py_split nl content)
                \<lparr>all_sql = sql, in_update = False, current_update = []\<rparr>)"

definition create_complete_sql :: "(string \<times> string) list \<Rightarrow> string" where
  "create_complete_sql dir =
     (let chunk_files = sort_key fst (filter (\<lambda>f. glob_match (fst f)) dir)
      in py_join [nl]
           (fold agg_file (map snd chunk_files)
              [''-- COMPLETE REQUIREMENTS RESTORATION'',
               ''-- Restoring ALL requirements from July 19th backup'',
               []]))"

section \<open>Vocabulary for the statements below\<close>

text \<open>
  The record a row with at least five fields is stored as, and the rows of the
  requirements block the light parser stores (its well-formed data lines, split).
\<close>

definition req_of :: "string list \<Rightarrow> req_data" where
  "req_of parts = \<lparr>standard_id = parts ! 1, control_id = parts ! 2,
                    title = parts ! 3, description = parts ! 4\<rparr>"

definition requirement_lines :: "string \<Rightarrow> string list" where
  "requirement_lines content =
     nonblank_lines (copy_section content (py_find content ''COPY public.requirements_library'' 0))"

definition requirement_rows :: "string \<Rightarrow> string list list" where
  "requirement_rows content =
     filter (\<lambda>parts. 5 \<le> length parts) (map (py_split tab) (requirement_lines content))"

text \<open>
  Reading a quoted SQL literal's body from the left: every single quote met is followed
  at once by a second one, which is consumed with it.
\<close>

fun quotes_paired :: "string \<Rightarrow> bool" where
  "quotes_paired [] = True"
| "quotes_paired [c] = (c \<noteq> squote)"
| "quotes_paired (c # d # cs) =
     (if c = squote then d = squote \<and> quotes_paired cs else quotes_paired (d # cs))"

text \<open>A requirements block whose two data rows share the requirement id \<open>r1\<close>.\<close>

definition dup_backup :: string where
  "dup_backup =
     ''COPY public.requirements_library (id) FROM stdin;'' @ [nl] @
     ''r1'' @ [tab] @ ''s'' @ [tab] @ ''4.1'' @ [tab] @ ''old'' @ [tab] @ ''d1'' @ [nl] @
     ''r1'' @ [tab] @ ''s'' @ [tab] @ ''4.2'' @ [tab] @ ''new'' @ [tab] @ ''d2'' @ [nl] @
     [bslash] @ ''.'' @ [nl]"

text \<open>A backup that holds only the standards table; no requirements marker.\<close>

definition standards_only_backup :: string where
  "standards_only_backup =
     ''COPY public.standards_library (id, name, version, description, created_at) FROM stdin;'' @ [nl] @
     ''std-1'' @ [tab] @ ''ISO/IEC 27001'' @ [tab] @ ''2022'' @ [tab] @ ''Information security'' @ [tab] @
       ''2025-07-19'' @ [nl] @
     [bslash] @ ''.'' @ [nl]"

text \<open>
  A backup that holds only some other table with eighteen columns, the second of which
  is a standard id; no requirements marker.
\<close>

definition other_table_backup :: string where
  "other_table_backup =
     ''COPY public.requirement_archive (id, standard_id) FROM stdin;'' @ [nl] @
     ''x1'' @ [tab] @ ''55742f4e-769b-4efe-912c-1371de5e1cd6'' @ [tab] @ ''9.9'' @ [tab] @ ''t'' @ [tab] @
       ''d'' @ [tab] @ ''c'' @ [tab] @ ''p'' @ [tab] @ [bslash] @ ''N'' @ [tab] @ ''1'' @ [tab] @ ''a'' @ [tab] @
       ''b'' @ [tab] @ ''t'' @ [tab] @ [bslash] @ ''N'' @ [tab] @ [bslash] @ ''N'' @ [tab] @ [bslash] @ ''N'' @
       [tab] @ [bslash] @ ''N'' @ [tab] @ [bslash] @ ''N'' @ [tab] @ ''z'' @ [nl] @
     [bslash] @ ''.'' @ [nl]"

text \<open>A requirements block with one ISO 27001 row of eighteen fields.\<close>

definition full_row_backup :: string where
  "full_row_backup =
     ''COPY public.requirements_library (id, standard_id) FROM stdin;'' @ [nl] @
     ''r1'' @ [tab] @ ''55742f4e-769b-4efe-912c-1371de5e1cd6'' @ [tab] @ ''4.1'' @ [tab] @ ''Title'' @ [tab] @
       ''Desc'' @ [tab] @ ''cat'' @ [tab] @ ''high'' @ [tab] @ [bslash] @ ''N'' @ [tab] @ ''1'' @ [tab] @
       ''2025-01-01'' @ [tab] @ ''2025-01-02'' @ [tab] @ ''t'' @ [tab] @ ''it'' @ [squote] @ ''s'' @ [tab] @
       ''Access control policy'' @ [tab] @ ''Do it'' @ [tab] @ ''o'' @ [squote] @ ''k'' @ [tab] @
       [bslash] @ ''N'' @ [tab] @ ''z'' @ [nl] @
     [bslash] @ ''.'' @ [nl]"

text \<open>A requirements block with one ISO 27001 row.\<close>

definition one_row_backup :: string where
  "one_row_backup =
     ''COPY public.requirements_library (id, standard_id) FROM stdin;'' @ [nl] @
     ''r1'' @ [tab] @ ''55742f4e-769b-4efe-912c-1371de5e1cd6'' @ [tab] @ ''4.1'' @ [tab] @ ''T'' @ [tab] @
       ''D'' @ [nl] @
     [bslash] @ ''.'' @ [nl]"

text \<open>A script with three statements and some text between them.\<close>

definition stmt_a :: string where
  "stmt_a = ''-- Update 4.1: A...'' @ [nl] @ ''WHERE id = '' @ [squote] @ ''a'' @ [squote] @ '';''"

definition stmt_b :: string where
  "stmt_b = ''-- Update 4.2: B...'' @ [nl] @ ''WHERE id = '' @ [squote] @ ''b'' @ [squote] @ '';''"

definition stmt_c :: string where
  "stmt_c = ''-- Update 4.3: C...'' @ [nl] @ ''WHERE id = '' @ [squote] @ ''c'' @ [squote] @ '';''"

definition batch_script :: string where
  "batch_script = stmt_a @ [nl, nl] @ stmt_b @ [nl] @ ''-- note'' @ [nl] @ stmt_c @ [nl]"

text \<open>A requirements block with three ISO 27001 rows, control ids 2.1, 10.1, 1.2.\<close>

definition full_row :: "string \<Rightarrow> string \<Rightarrow> string" where
  "full_row std cid = ''r'' @ [tab] @ std @ [tab] @ cid @ replicate 15 tab @ ''z'' @ [nl]"

definition three_rows_backup :: string where
  "three_rows_backup =
     ''COPY public.requirements_library (id) FROM stdin;'' @ [nl] @
     concat (map (full_row ''55742f4e-769b-4efe-912c-1371de5e1cd6'') [''2.1'', ''10.1'', ''1.2'']) @
     [bslash] @ ''.'' @ [nl]"



text \<open>A script of \<open>n\<close> copies of one statement, each followed by a newline.\<close>

definition repeated_script :: "nat \<Rightarrow> string" where
  "repeated_script n = concat (replicate n (stmt_a @ [nl]))"

section \<open>Facts about the Standard Resolver\<close>

lemma resolve_step_branch:
  "target_id k (resolve_step t item) =
     (if branch_taken (snd item) = Some k then Some (fst item) else target_id k t)"
  by (cases k) (simp_all add: resolve_step_def branch_taken_def Let_def)

lemma last_in_branch_snoc:
  "last_in_branch k (xs @ [item]) =
     (if branch_taken (snd item) = Some k then Some (fst item) else last_in_branch k xs)"
  by (simp add: last_in_branch_def)

lemma target_id_no_targets: "target_id k no_targets = None"
  by (cases k) (simp_all add: no_targets_def)

text \<open>
  C3 (as amended). The loop has no guard against a second assignment, so each target
  variable ends with the identifier of the last standard, in iteration order, whose
  name takes that target's branch of the chain.
\<close>

theorem find_target_standards_last_wins:
  "target_id k (find_target_standards standard_map) = last_in_branch k standard_map"
proof (induction standard_map rule: rev_induct)
  case Nil
  show ?case
    by (simp add: find_target_standards_def target_id_no_targets last_in_branch_def)
next
  case (snoc item xs)
  then show ?case
    by (simp add: find_target_standards_def resolve_step_branch last_in_branch_snoc)
qed

theorem find_target_standards_last_wins_witness:
  "target_id ISO27001 (find_target_standards
      [(''A'', ''ISO/IEC 27001 2013''), (''B'', ''ISO/IEC 27001 2022''),
       (''C'', ''CIS Controls IG1'')]) = Some ''B'' \<and>
   target_id ISO27002 (find_target_standards
      [(''A'', ''ISO/IEC 27001 2013''), (''B'', ''ISO/IEC 27001 2022''),
       (''C'', ''CIS Controls IG1'')]) = None"
  using
    find_target_standards_last_wins [of ISO27001
      "[(''A'', ''ISO/IEC 27001 2013''), (''B'', ''ISO/IEC 27001 2022''),
        (''C'', ''CIS Controls IG1'')]"]
    find_target_standards_last_wins [of ISO27002
      "[(''A'', ''ISO/IEC 27001 2013''), (''B'', ''ISO/IEC 27001 2022''),
        (''C'', ''CIS Controls IG1'')]"]
  by (simp add: last_in_branch_def branch_taken_def py_lower_def lower_char_def)

text \<open>
  C3 as stated fails: two standards whose names both contain \<open>iso\<close> and \<open>27001\<close>;
  the first in iteration order is \<open>A\<close>, the resolver returns \<open>B\<close>.
\<close>

theorem first_match_counterexample:
  "tokens_match ISO27001 ''ISO/IEC 27001 2013'' \<and>
   tokens_match ISO27001 ''ISO/IEC 27001 2022'' \<and>
   iso27001_id (find_target_standards
      [(''A'', ''ISO/IEC 27001 2013''), (''B'', ''ISO/IEC 27001 2022'')]) = Some ''B'' \<and>
   iso27001_id (find_target_standards
      [(''A'', ''ISO/IEC 27001 2013''), (''B'', ''ISO/IEC 27001 2022'')]) \<noteq> Some ''A''"
  by (simp add: find_target_standards_def resolve_step_def no_targets_def py_lower_def
      lower_char_def)

section \<open>Facts about the light-extraction parser\<close>

lemma fold_add_requirement:
  "fold add_requirement lines acc =
     fold (\<lambda>parts. AList.update (parts ! 0) (req_of parts))
       (filter (\<lambda>parts. 5 \<le> length parts) (map (py_split tab) lines)) acc"
  by (induction lines arbitrary: acc) (simp_all add: add_requirement_def req_of_def Let_def)

lemma extract_requirements_as_fold:
  "extract_requirements_from_backup content =
     fold (\<lambda>parts. AList.update (parts ! 0) (req_of parts)) (requirement_rows content) []"
  by (simp add: extract_requirements_from_backup_def requirement_rows_def requirement_lines_def
      fold_add_requirement Let_def)

lemma map_of_fold_update:
  "map_of (fold (\<lambda>p. AList.update (f p) (g p)) rows acc) k =
     (let hits = filter (\<lambda>p. f p = k) rows
      in if hits = [] then map_of acc k else Some (g (last hits)))"
  by (induction rows arbitrary: acc) (simp_all add: update_conv' Let_def)

lemma distinct_fold_update:
  "distinct (map fst acc) \<Longrightarrow> distinct (map fst (fold (\<lambda>p. AList.update (f p) (g p)) rows acc))"
  by (induction rows arbitrary: acc) (simp_all add: distinct_update)

lemma keys_fold_update:
  "fst ` set (fold (\<lambda>p. AList.update (f p) (g p)) rows acc) = fst ` set acc \<union> f ` set rows"
  by (induction rows arbitrary: acc) (auto simp add: dom_update)

lemma length_update_le: "length (AList.update k v al) \<le> Suc (length al)"
  by (induction al) auto

lemma length_fold_update_le:
  "length (fold (\<lambda>p. AList.update (f p) (g p)) rows acc) \<le> length acc + length rows"
proof (induction rows arbitrary: acc)
  case Nil
  show ?case by simp
next
  case (Cons r rows)
  have "length (AList.update (f r) (g r) acc) \<le> Suc (length acc)"
    by (rule length_update_le)
  with Cons [of "AList.update (f r) (g r) acc"] show ?case by simp
qed

text \<open>
  C10. The light-extraction parser keys its result by the row's first field. The keys of
  the returned mapping are distinct; looking a requirement id up gives the record of the
  last well-formed row with that first field (nothing if there is none); the number of
  returned records is the number of distinct first fields, which is at most the number
  of well-formed rows. The witness below is a backup where it is strictly less.
\<close>

theorem extract_requirements_keyed_by_id:
  "distinct (map fst (extract_requirements_from_backup content)) \<and>
   map_of (extract_requirements_from_backup content) req_id =
     (let rows = filter (\<lambda>parts. parts ! 0 = req_id) (requirement_rows content)
      in if rows = [] then None else Some (req_of (last rows))) \<and>
   length (extract_requirements_from_backup content) =
     card (set (map (\<lambda>parts. parts ! 0) (requirement_rows content))) \<and>
   length (extract_requirements_from_backup content) \<le> length (requirement_rows content)"
proof -
  let ?d = "extract_requirements_from_backup content"
  have d: "distinct (map fst ?d)"
    by (simp add: extract_requirements_as_fold distinct_fold_update)
  have m: "map_of ?d req_id =
     (let rows = filter (\<lambda>parts. parts ! 0 = req_id) (requirement_rows content)
      in if rows = [] then None else Some (req_of (last rows)))"
    by (simp add: extract_requirements_as_fold map_of_fold_update Let_def)
  have "set (map fst ?d) = set (map (\<lambda>parts. parts ! 0) (requirement_rows content))"
    by (simp add: extract_requirements_as_fold keys_fold_update)
  then have "card (set (map (\<lambda>parts. parts ! 0) (requirement_rows content))) = length (map fst ?d)"
    using d distinct_card by metis
  then have c: "length ?d = card (set (map (\<lambda>parts. parts ! 0) (requirement_rows content)))"
    by simp
  have l: "length ?d \<le> length (requirement_rows content)"
    using length_fold_update_le [of _ _ "requirement_rows content" "[]"]
    by (simp add: extract_requirements_as_fold)
  from d m c l show ?thesis by blast
qed

lemma dup_backup_rows:
  "requirement_rows dup_backup =
     [[''r1'', ''s'', ''4.1'', ''old'', ''d1''], [''r1'', ''s'', ''4.2'', ''new'', ''d2'']]"
  by code_simp

theorem extract_requirements_keyed_by_id_witness:
  "map_of (extract_requirements_from_backup dup_backup) ''r1'' =
     Some \<lparr>standard_id = ''s'', control_id = ''4.2'', title = ''new'', description = ''d2''\<rparr> \<and>
   length (extract_requirements_from_backup dup_backup) = 1 \<and>
   length (requirement_rows dup_backup) = 2"
  using extract_requirements_keyed_by_id [of dup_backup "''r1''"]
  by (simp add: dup_backup_rows req_of_def)

section \<open>The code at inputs where it departs from the specification\<close>

text \<open>
  C4. Neither backup below contains \<open>COPY public.requirements_library\<close>.
  \<open>extract_backup_data\<close> tests the marker and reports the missing section. The two
  other parsers do not test what \<open>find\<close> returned: they go on with \<open>-1\<close>, take the text
  from offset 11 to the first terminator, and return rows of an unrelated table.
\<close>

theorem missing_marker_rows_parsed:
  "py_find standards_only_backup ''COPY public.requirements_library'' 0 = - 1 \<and>
   extract_backup_data standards_only_backup = Inl RequirementsSectionMissing \<and>
   extract_requirements_from_backup standards_only_backup =
     [(''std-1'', \<lparr>standard_id = ''ISO/IEC 27001'', control_id = ''2022'',
                    title = ''Information security'', description = ''2025-07-19''\<rparr>)] \<and>
   py_find other_table_backup ''COPY public.requirements_library'' 0 = - 1 \<and>
   map fst (fst (extract_requirements_for_insert other_table_backup)) = [''9.9'']"
  by code_simp

text \<open>
  C1. One ISO 27001 row with tags \<open>it's\<close>, official description
  \<open>Access control policy\<close>, audit-ready guidance \<open>o'k\<close> and a null section. The
  official description is interpolated bare, with no quotes around it; the tags are
  quoted but their quote is not doubled; only the audit-ready guidance is quoted with
  its quote doubled.
\<close>

theorem nullable_fields_rendering:
  "map fst (fst (extract_requirements_for_insert full_row_backup)) = [''4.1''] \<and>
   map (\<lambda>e. py_in ('', Access control policy, '') (snd e))
     (fst (extract_requirements_for_insert full_row_backup)) = [True] \<and>
   map (\<lambda>e. py_in ([squote] @ ''Access control policy'' @ [squote]) (snd e))
     (fst (extract_requirements_for_insert full_row_backup)) = [False] \<and>
   map (\<lambda>e. py_in ('', '' @ [squote] @ ''it'' @ [squote] @ ''s'' @ [squote] @ '', '') (snd e))
     (fst (extract_requirements_for_insert full_row_backup)) = [True] \<and>
   map (\<lambda>e. py_in ('', '' @ [squote] @ ''o'' @ [squote, squote] @ ''k'' @ [squote] @ '', NULL'') (snd e))
     (fst (extract_requirements_for_insert full_row_backup)) = [True]"
  by code_simp

text \<open>
  C2. A backup with one ISO 27001 requirement. The Batcher finds one statement in the
  generated script and writes one chunk file; the Aggregator, run over that file,
  returns its two header lines and no \<open>UPDATE\<close> statement, because the script's lines
  are separated by backslash-n and the chunk is therefore a single line that starts
  with a comment.
\<close>

theorem round_trip_loses_updates:
  "length (findall_updates (generate_restoration_sql one_row_backup)) = 1 \<and>
   map fst (batcher_main (generate_restoration_sql one_row_backup)) = [''sql_chunk_01.sql''] \<and>
   create_complete_sql (batcher_main (generate_restoration_sql one_row_backup)) =
     ''-- COMPLETE REQUIREMENTS RESTORATION'' @ [nl] @
     ''-- Restoring ALL requirements from July 19th backup'' @ [nl] \<and>
   py_in ''UPDATE requirements_library SET''
     (create_complete_sql (batcher_main (generate_restoration_sql one_row_backup))) = False"
  by code_simp

section \<open>Facts about the Batcher\<close>

lemma chunk_count_Suc:
  assumes "0 < c" "0 < n"
  shows "(n + c - 1) div c = Suc ((n - c + c - 1) div c)"
proof (cases "c \<le> n")
  case True
  then have "n + c - 1 = (n - c + c - 1) + c" using assms by simp
  then have "(n + c - 1) div c = (n - c + c - 1) div c + 1"
    using assms by (metis div_add_self2 less_numeral_extra(3))
  then show ?thesis by simp
next
  case False
  then have a: "n - c = 0" by simp
  have "c \<le> n + c - 1" using assms by simp
  moreover have "n + c - 1 < 2 * c" using False assms by simp
  ultimately have "(n + c - 1) div c = 1"
    using assms by (simp add: div_nat_eqI)
  moreover have "(n - c + c - 1) div c = 0" using a assms by simp
  ultimately show ?thesis by simp
qed

lemma chunk_groups_Nil: "0 < c \<Longrightarrow> chunk_groups [] c = []"
  by (simp add: chunk_groups_def)

lemma chunk_groups_rec:
  assumes "0 < c" "u \<noteq> []"
  shows "chunk_groups u c = take c u # chunk_groups (drop c u) c"
proof -
  have n: "0 < length u" using assms by simp
  have "(length u + c - 1) div c = Suc ((length (drop c u) + c - 1) div c)"
    using chunk_count_Suc [OF assms(1) n] by simp
  then show ?thesis
    by (simp add: chunk_groups_def map_upt_Suc add.commute del: upt_Suc)
qed

lemma concat_chunk_groups: "0 < c \<Longrightarrow> concat (chunk_groups u c) = u"
proof (induction u rule: length_induct)
  case (1 u)
  show ?case
  proof (cases "u = []")
    case True
    then show ?thesis using 1(2) by (simp add: chunk_groups_Nil)
  next
    case False
    have "length (drop c u) < length u" using False 1(2) by simp
    then have "concat (chunk_groups (drop c u) c) = drop c u" using 1 by blast
    then show ?thesis using False 1(2) by (simp add: chunk_groups_rec)
  qed
qed

lemma chunk_groups_sizes:
  "0 < c \<Longrightarrow> i < length (chunk_groups u c) \<Longrightarrow>
     chunk_groups u c ! i \<noteq> [] \<and> length (chunk_groups u c ! i) \<le> c \<and>
     (Suc i < length (chunk_groups u c) \<longrightarrow> length (chunk_groups u c ! i) = c)"
proof (induction u arbitrary: i rule: length_induct)
  case (1 u)
  show ?case
  proof (cases "u = []")
    case True
    then show ?thesis using 1(2,3) by (simp add: chunk_groups_Nil)
  next
    case False
    note rec = chunk_groups_rec [OF 1(2) False]
    show ?thesis
    proof (cases i)
      case 0
      have "Suc 0 < length (chunk_groups u c) \<Longrightarrow> c \<le> length u"
      proof (rule ccontr)
        assume a: "Suc 0 < length (chunk_groups u c)" and b: "\<not> c \<le> length u"
        then have "drop c u = []" by simp
        then show False using a rec 1(2) by (simp add: chunk_groups_Nil)
      qed
      then show ?thesis using 0 rec False 1(2) by auto
    next
      case (Suc j)
      have l: "length (drop c u) < length u" using False 1(2) by simp
      have j: "j < length (chunk_groups (drop c u) c)" using Suc 1(3) rec by simp
      from 1(1) l 1(2) j
      have "chunk_groups (drop c u) c ! j \<noteq> [] \<and> length (chunk_groups (drop c u) c ! j) \<le> c \<and>
            (Suc j < length (chunk_groups (drop c u) c) \<longrightarrow> length (chunk_groups (drop c u) c ! j) = c)"
        by blast
      then show ?thesis using Suc rec by simp
    qed
  qed
qed

lemma str_nat_small: "n < 10 \<Longrightarrow> str_nat n = [digit_char n]"
  by (simp add: str_nat.simps)

lemma fmt_02d_two_digits: "k < 100 \<Longrightarrow> fmt_02d k = [digit_char (k div 10), digit_char (k mod 10)]"
proof (cases "k < 10")
  case True
  then show ?thesis by (simp add: fmt_02d_def str_nat_small digit_char_def)
next
  case False
  assume "k < 100"
  then have "k div 10 < 10" by simp
  then have "str_nat k = [digit_char (k div 10), digit_char (k mod 10)]"
    using False str_nat.simps [of k] by (simp add: str_nat_small)
  then show ?thesis by (simp add: fmt_02d_def)
qed

lemma write_chunks_nth:
  "write_chunks chunks = map (\<lambda>i. (chunk_file_name i, chunks ! i)) [0..<length chunks]"
proof (rule nth_equalityI)
  show "length (write_chunks chunks) =
        length (map (\<lambda>i. (chunk_file_name i, chunks ! i)) [0..<length chunks])"
    by (simp add: write_chunks_def)
next
  fix i
  assume "i < length (write_chunks chunks)"
  then show "write_chunks chunks ! i =
             map (\<lambda>i. (chunk_file_name i, chunks ! i)) [0..<length chunks] ! i"
    by (simp add: write_chunks_def nth_enumerate_eq)
qed

lemma findall_updates_stmt_a:
  "findall_updates (stmt_a @ nl # rest) = stmt_a # findall_updates rest"
  by (simp add: stmt_a_def where_tail_len_def)

lemma findall_updates_repeated:
  "findall_updates (repeated_script n) = replicate n stmt_a"
  unfolding repeated_script_def
  by (induction n) (simp_all add: findall_updates_stmt_a)

lemma length_chunk_groups: "length (chunk_groups u c) = (length u + c - 1) div c"
  by (simp add: chunk_groups_def)

lemma chunk_groups_one: "chunk_groups (replicate n x) (Suc 0) = replicate n [x]"
  by (rule nth_equalityI) (simp_all add: chunk_groups_def)

lemma str_nat_length: "10 \<le> k \<Longrightarrow> 2 \<le> length (str_nat k)"
proof -
  assume a: "10 \<le> k"
  have "1 \<le> length (str_nat (k div 10))"
    using str_nat.simps [of "k div 10"] by (cases "k div 10 < 10") simp_all
  then show ?thesis using a str_nat.simps [of k] by simp
qed

lemma str_nat_length3: "100 \<le> k \<Longrightarrow> 3 \<le> length (str_nat k)"
proof -
  assume a: "100 \<le> k"
  then have "10 \<le> k div 10" by simp
  then have "2 \<le> length (str_nat (k div 10))" by (rule str_nat_length)
  then show ?thesis using a str_nat.simps [of k] by simp
qed

lemma fmt_02d_wide: "100 \<le> k \<Longrightarrow> fmt_02d k = str_nat k"
  using str_nat_length3 [of k] by (simp add: fmt_02d_def Let_def)

lemma batcher_main_eq:
  "batcher_main sql_content =
     write_chunks (map (py_join [nl, nl]) (chunk_groups (findall_updates sql_content) 8))"
  by (simp add: batcher_main_def split_sql_into_chunks_def)

lemma chunk_file_name_99: "chunk_file_name 99 = ''sql_chunk_100.sql''"
  by code_simp

lemma str_nat_100: "str_nat 100 = ''100''"
  by code_simp

text \<open>
  C8 (as amended). For every script and every chunk size \<open>c \<ge> 1\<close>: the Batcher's groups are
  the consecutive slices of the extracted statement list; their concatenation in index
  order is that list; no group is empty or longer than \<open>c\<close>, and every group but the
  last has exactly \<open>c\<close> statements; group \<open>i\<close> (counted from 0) is joined with a blank
  line and written to \<open>sql_chunk_N.sql\<close> where \<open>N\<close> is \<open>i + 1\<close> under Python's \<open>02d\<close>
  format: the number padded with zeros to a width of at least two. That is exactly two
  digits for the first 99 groups, and the plain decimal number, three digits or more,
  from the 100th group on. \<open>main\<close> itself runs with \<open>c = 8\<close>.
\<close>

theorem batcher_partitions:
  assumes "0 < c"
  shows
    "(let updates = findall_updates sql_content;
          groups = chunk_groups updates c;
          chunks = map (py_join [nl, nl]) groups
      in split_sql_into_chunks sql_content (int c) = Inr chunks \<and>
         concat groups = updates \<and>
         (\<forall>i < length groups.
            groups ! i \<noteq> [] \<and> length (groups ! i) \<le> c \<and>
            (Suc i < length groups \<longrightarrow> length (groups ! i) = c)) \<and>
         write_chunks chunks =
           map (\<lambda>i. (''sql_chunk_'' @ fmt_02d (i + 1) @ ''.sql'', py_join [nl, nl] (groups ! i)))
             [0..<length groups] \<and>
         (\<forall>k < 100. fmt_02d k = [digit_char (k div 10), digit_char (k mod 10)]) \<and>
         (\<forall>k \<ge> 100. fmt_02d k = str_nat k \<and> 3 \<le> length (fmt_02d k))) \<and>
     batcher_main sql_content =
       write_chunks (map (py_join [nl, nl]) (chunk_groups (findall_updates sql_content) 8))"
proof -
  have a: "split_sql_into_chunks sql_content (int c) =
      Inr (map (py_join [nl, nl]) (chunk_groups (findall_updates sql_content) c))"
    using assms by (simp add: split_sql_into_chunks_def)
  have b: "concat (chunk_groups (findall_updates sql_content) c) = findall_updates sql_content"
    using assms by (rule concat_chunk_groups)
  have d: "write_chunks (map (py_join [nl, nl]) (chunk_groups (findall_updates sql_content) c)) =
      map (\<lambda>i. (''sql_chunk_'' @ fmt_02d (i + 1) @ ''.sql'',
                 py_join [nl, nl] (chunk_groups (findall_updates sql_content) c ! i)))
        [0..<length (chunk_groups (findall_updates sql_content) c)]"
    by (simp add: write_chunks_nth chunk_file_name_def)
  have w: "\<forall>k \<ge> 100. fmt_02d k = str_nat k \<and> 3 \<le> length (fmt_02d k)"
    using fmt_02d_wide str_nat_length3 by simp
  show ?thesis
    unfolding Let_def
    using a b d w batcher_main_eq chunk_groups_sizes [OF assms] fmt_02d_two_digits by blast
qed

section \<open>Facts about the INSERT generator's ordering and sample\<close>

lemma map_fst_sort_key: "map fst (sort_key fst xs) = sort (map fst xs)"
  by (rule properties_for_sort [symmetric]) simp_all

text \<open>
  C6. The statements of each standard are written in ascending order of control id under
  the lexicographic order on strings (character by character, by code point), in which
  \<open>10.1\<close> comes before \<open>2.1\<close>; rows with control ids 2.1, 10.1 and 1.2 are written in
  the order 1.2, 10.1, 2.1.
\<close>

theorem insert_order_lexicographic:
  "sorted (map fst (iso27001_written content)) \<and>
   sorted (map fst (iso27002_written content)) \<and>
   (''10.1'' :: string) < ''2.1'' \<and>
   (mset (map fst (fst (extract_requirements_for_insert content))) =
      mset [''2.1'', ''10.1'', ''1.2''] \<longrightarrow>
    map fst (iso27001_written content) = [''1.2'', ''10.1'', ''2.1'']) \<and>
   (mset (map fst (snd (extract_requirements_for_insert content))) =
      mset [''2.1'', ''10.1'', ''1.2''] \<longrightarrow>
    map fst (iso27002_written content) = [''1.2'', ''10.1'', ''2.1''])"
proof -
  have s: "sorted [''1.2'', ''10.1'', ''2.1'' :: string]" by simp
  have r: "mset (map fst xs) = mset [''2.1'', ''10.1'', ''1.2''] \<Longrightarrow>
           sort_key (\<lambda>x. x) (map fst xs) = [''1.2'', ''10.1'', ''2.1'']" for xs :: "(string \<times> string) list"
    by (rule properties_for_sort) (simp_all add: s)
  have t: "mset (map fst xs) = mset [''2.1'', ''10.1'', ''1.2''] \<Longrightarrow>
           take 20 (sort_key (\<lambda>x. x) (map fst xs)) = [''1.2'', ''10.1'', ''2.1'']" for xs :: "(string \<times> string) list"
    using r [of xs] by simp
  show ?thesis
    using r t
    by (simp add: iso27001_written_def iso27002_written_def map_fst_sort_key take_map [symmetric]
        sorted_wrt_take del: mset.simps)
qed

lemma batch_script_updates: "findall_updates batch_script = [stmt_a, stmt_b, stmt_c]"
  by code_simp

lemma batch_script_groups:
  "chunk_groups [stmt_a, stmt_b, stmt_c] 2 = [[stmt_a, stmt_b], [stmt_c]]"
  by code_simp

lemma three_rows_ids:
  "map fst (fst (extract_requirements_for_insert three_rows_backup)) = [''2.1'', ''10.1'', ''1.2'']"
  by code_simp

theorem batcher_partitions_witness:
  "split_sql_into_chunks batch_script 2 =
     Inr [stmt_a @ [nl, nl] @ stmt_b, stmt_c] \<and>
   concat (chunk_groups (findall_updates batch_script) 2) = [stmt_a, stmt_b, stmt_c] \<and>
   write_chunks [stmt_a @ [nl, nl] @ stmt_b, stmt_c] =
     [(''sql_chunk_01.sql'', stmt_a @ [nl, nl] @ stmt_b), (''sql_chunk_02.sql'', stmt_c)] \<and>
   fmt_02d 100 = ''100''"
proof -
  have u: "[0..<2] = [0, Suc 0]" by (simp add: upt_rec numeral_2_eq_2)
  have f: "fmt_02d (Suc 0) = ''01''" "fmt_02d (Suc (Suc 0)) = ''02''"
    by (simp_all add: fmt_02d_two_digits digit_char_def)
  show ?thesis
    using batcher_partitions [of 2 batch_script]
    by (simp add: Let_def batch_script_groups batch_script_updates u f str_nat_100)
qed

text \<open>
  C8 as stated fails at the 100th group: a script of 100 statements cut with chunk size
  1, and a script of 793 statements cut by \<open>main\<close> with its chunk size 8, both give 100
  groups, and the last file is \<open>sql_chunk_100.sql\<close>, whose index has three digits.
\<close>

theorem chunk_name_three_digits_counterexample:
  "split_sql_into_chunks (repeated_script 100) 1 = Inr (replicate 100 stmt_a) \<and>
   fst (write_chunks (replicate 100 stmt_a) ! 99) = ''sql_chunk_100.sql'' \<and>
   length (findall_updates (repeated_script 793)) = 793 \<and>
   length (batcher_main (repeated_script 793)) = 100 \<and>
   fst (batcher_main (repeated_script 793) ! 99) = ''sql_chunk_100.sql'' \<and>
   length ''sql_chunk_100.sql'' \<noteq> length ''sql_chunk_01.sql''"
proof -
  have a: "split_sql_into_chunks (repeated_script 100) 1 = Inr (replicate 100 stmt_a)"
    by (simp add: split_sql_into_chunks_def findall_updates_repeated chunk_groups_one)
  have b: "fst (write_chunks (replicate 100 stmt_a) ! 99) = ''sql_chunk_100.sql''"
    by (simp add: write_chunks_nth chunk_file_name_99)
  have c: "length (batcher_main (repeated_script 793)) = 100"
    by (simp add: batcher_main_eq write_chunks_nth length_chunk_groups findall_updates_repeated)
  have d: "fst (batcher_main (repeated_script 793) ! 99) = ''sql_chunk_100.sql''"
    by (simp add: batcher_main_eq write_chunks_nth length_chunk_groups findall_updates_repeated
        chunk_file_name_99)
  show ?thesis
    using a b c d by (simp add: findall_updates_repeated)
qed

theorem insert_order_lexicographic_witness:
  "map fst (iso27001_written three_rows_backup) = [''1.2'', ''10.1'', ''2.1''] \<and>
   sorted (map fst (iso27001_written three_rows_backup))"
  using insert_order_lexicographic [of three_rows_backup]
  by (simp add: three_rows_ids)





end
